theory Spec2Isabelle
  imports Complex_Main
begin

section \<open>The view state of \<open>BuildingPlanViewer\<close>\<close>

text \<open>
  The viewer of \<^verbatim>\<open>draw.py\<close> keeps its visible window in the axes object
  (\<^verbatim>\<open>ax.get_xlim()\<close>, \<^verbatim>\<open>ax.get_ylim()\<close>, each a pair \<open>(low, high)\<close>) and the
  reset target in its own attributes \<^verbatim>\<open>self.x_limits\<close>, \<^verbatim>\<open>self.y_limits\<close>.
  The record below is that state once \<^verbatim>\<open>__init__\<close> has returned, when the two
  attributes are no longer \<^verbatim>\<open>None\<close>. \<^verbatim>\<open>set_xlim\<close> is modelled as storing the
  pair it is given and \<^verbatim>\<open>get_xlim\<close> as reading it back. That is what the
  plotting library does with two distinct limits, in either order; given two
  identical limits it stores an interval widened around them instead, so the
  definitions below describe the program where the limits it sets are
  distinct.

  Coordinates are Python floats in the program. They are modelled as real
  numbers: every result below is about exact arithmetic, and rounding of
  IEEE doubles is outside the model.
\<close>

type_synonym limits = "real \<times> real"

record view_state =
  xlim :: limits
  ylim :: limits
  x_limits :: limits
  y_limits :: limits

definition width :: "limits \<Rightarrow> real" where
  "width l = snd l - fst l"

definition center :: "limits \<Rightarrow> real" where
  "center l = (fst l + snd l) / 2"

definition valid_bounds :: "limits \<Rightarrow> bool" where
  "valid_bounds l = (fst l < snd l)"

definition valid_view :: "view_state \<Rightarrow> bool" where
  "valid_view s = (valid_bounds (xlim s) \<and> valid_bounds (ylim s))"

definition valid_state :: "view_state \<Rightarrow> bool" where
  "valid_state s =
     (valid_view s \<and> valid_bounds (x_limits s) \<and> valid_bounds (y_limits s))"

datatype py_error = ZeroDivisionError

subsection \<open>\<^verbatim>\<open>set_initial_view\<close> and the end of \<^verbatim>\<open>setup_plot\<close>\<close>

definition set_initial_view :: "view_state \<Rightarrow> real \<times> real \<Rightarrow> real \<Rightarrow> view_state" where
  "set_initial_view s c zoom_level =
     (let x_center = fst c; y_center = snd c;
          cur_xlim = xlim s; cur_ylim = ylim s;
          current_width = snd cur_xlim - fst cur_xlim;
          current_height = snd cur_ylim - fst cur_ylim;
          new_width = current_width * zoom_level;
          new_height = current_height * zoom_level;
          s1 = s\<lparr>xlim := (x_center - new_width / 2, x_center + new_width / 2)\<rparr>;
          s2 = s1\<lparr>ylim := (y_center - new_height / 2, y_center + new_height / 2)\<rparr>;
          s3 = s2\<lparr>x_limits := xlim s2\<rparr>
      in s3\<lparr>y_limits := ylim s3\<rparr>)"

text \<open>
  Lines 151 to 157 of \<^verbatim>\<open>setup_plot\<close>: the limits that the axes have after the
  shapes were added (computed by the plotting library, hence parameters here)
  are saved as the reset target, and \<^verbatim>\<open>set_initial_view\<close> runs when an initial
  centre was given.
\<close>

definition setup_plot :: "limits \<Rightarrow> limits \<Rightarrow> (real \<times> real) option \<Rightarrow> real \<Rightarrow> view_state" where
  "setup_plot fit_x fit_y initial_center initial_zoom =
     (let s = \<lparr>xlim = fit_x, ylim = fit_y, x_limits = fit_x, y_limits = fit_y\<rparr>
      in case initial_center of
           None \<Rightarrow> s
         | Some c \<Rightarrow> set_initial_view s c initial_zoom)"

subsection \<open>Navigation\<close>

text \<open>
  Lines 219 to 226 of \<^verbatim>\<open>on_scroll\<close>, with the local \<^verbatim>\<open>scale_factor\<close> as a
  parameter. Both divisions are evaluated before the first \<^verbatim>\<open>set_xlim\<close>; a
  zero divisor is an error here, raised before anything is stored. It needs a
  view of zero width or height, which \<^verbatim>\<open>set_xlim\<close> never stores.
\<close>

definition zoom_at_point :: "view_state \<Rightarrow> real \<Rightarrow> real \<Rightarrow> real \<Rightarrow> py_error + view_state" where
  "zoom_at_point s xdata ydata scale_factor =
     (let cur_xlim = xlim s; cur_ylim = ylim s;
          new_width = (snd cur_xlim - fst cur_xlim) * scale_factor;
          new_height = (snd cur_ylim - fst cur_ylim) * scale_factor
      in if snd cur_xlim - fst cur_xlim = 0 then Inl ZeroDivisionError
         else if snd cur_ylim - fst cur_ylim = 0 then Inl ZeroDivisionError
         else
           let relx = (snd cur_xlim - xdata) / (snd cur_xlim - fst cur_xlim);
               rely = (snd cur_ylim - ydata) / (snd cur_ylim - fst cur_ylim)
           in Inr (s\<lparr>xlim := (xdata - new_width * (1 - relx), xdata + new_width * relx),
                      ylim := (ydata - new_height * (1 - rely), ydata + new_height * rely)\<rparr>))"

record scroll_event =
  inaxes :: bool
  xdata :: "real option"
  ydata :: "real option"
  button :: string

definition base_scale :: real where
  "base_scale = 1.1"

definition scale_factor_of :: "string \<Rightarrow> real" where
  "scale_factor_of b =
     (if b = ''up'' then 1 / base_scale
      else if b = ''down'' then base_scale
      else 1)"

text \<open>
  \<^verbatim>\<open>on_scroll\<close>; the field \<open>inaxes\<close> of the event is the outcome of the test
  \<^verbatim>\<open>event.inaxes == self.ax\<close>.
\<close>

definition on_scroll :: "view_state \<Rightarrow> scroll_event \<Rightarrow> py_error + view_state" where
  "on_scroll s event =
     (if \<not> inaxes event then Inr s
      else case xdata event of
             None \<Rightarrow> Inr s
           | Some x \<Rightarrow>
               (case ydata event of
                  None \<Rightarrow> Inr s
                | Some y \<Rightarrow> zoom_at_point s x y (scale_factor_of (button event))))"

definition zoom :: "view_state \<Rightarrow> real \<Rightarrow> view_state" where
  "zoom s scale_factor =
     (let cur_xlim = xlim s; cur_ylim = ylim s;
          x_center = (fst cur_xlim + snd cur_xlim) / 2;
          y_center = (fst cur_ylim + snd cur_ylim) / 2;
          new_width = (snd cur_xlim - fst cur_xlim) * scale_factor;
          new_height = (snd cur_ylim - fst cur_ylim) * scale_factor
      in s\<lparr>xlim := (x_center - new_width / 2, x_center + new_width / 2),
            ylim := (y_center - new_height / 2, y_center + new_height / 2)\<rparr>)"

definition pan :: "view_state \<Rightarrow> real \<Rightarrow> real \<Rightarrow> view_state" where
  "pan s dx dy =
     (let cur_xlim = xlim s; cur_ylim = ylim s;
          w = snd cur_xlim - fst cur_xlim;
          h = snd cur_ylim - fst cur_ylim
      in s\<lparr>xlim := (fst cur_xlim + dx * w, snd cur_xlim + dx * w),
            ylim := (fst cur_ylim + dy * h, snd cur_ylim + dy * h)\<rparr>)"

definition reset_view :: "view_state \<Rightarrow> view_state" where
  "reset_view s = s\<lparr>xlim := x_limits s, ylim := y_limits s\<rparr>"

definition on_key_press :: "view_state \<Rightarrow> string \<Rightarrow> view_state" where
  "on_key_press s key =
     (if key = ''r'' \<or> key = ''R'' then reset_view s
      else if key = ''+'' \<or> key = ''='' then zoom s 1.2
      else if key = ''-'' then zoom s 0.8
      else if key = ''up'' then pan s 0 0.1
      else if key = ''down'' then pan s 0 (- 0.1)
      else if key = ''left'' then pan s (- 0.1) 0
      else if key = ''right'' then pan s 0.1 0
      else s)"

subsection \<open>Sequences of navigation calls\<close>

text \<open>
  A call of one of the viewer's navigation methods with its arguments, and the
  effect of a list of such calls made one after the other. An exception ends
  the run.
\<close>

datatype nav_op =
    ZoomAtPoint real real real
  | ZoomCentered real
  | Pan real real
  | Reset

fun apply_op :: "view_state \<Rightarrow> nav_op \<Rightarrow> py_error + view_state" where
  "apply_op s (ZoomAtPoint x y f) = zoom_at_point s x y f"
| "apply_op s (ZoomCentered f) = Inr (zoom s f)"
| "apply_op s (Pan dx dy) = Inr (pan s dx dy)"
| "apply_op s Reset = Inr (reset_view s)"

fun run :: "view_state \<Rightarrow> nav_op list \<Rightarrow> py_error + view_state" where
  "run s [] = Inr s"
| "run s (op # ops) =
     (case apply_op s op of Inl e \<Rightarrow> Inl e | Inr s' \<Rightarrow> run s' ops)"

fun positive_factor :: "nav_op \<Rightarrow> bool" where
  "positive_factor (ZoomAtPoint x y f) = (0 < f)"
| "positive_factor (ZoomCentered f) = (0 < f)"
| "positive_factor (Pan dx dy) = True"
| "positive_factor Reset = True"

section \<open>Loading the layers\<close>









section \<open>Properties\<close>

lemma home_zoom: "x_limits (zoom s f) = x_limits s \<and> y_limits (zoom s f) = y_limits s"
  by (simp add: zoom_def Let_def)

lemma home_pan: "x_limits (pan s dx dy) = x_limits s \<and> y_limits (pan s dx dy) = y_limits s"
  by (simp add: pan_def Let_def)

lemma home_reset_view: "x_limits (reset_view s) = x_limits s \<and> y_limits (reset_view s) = y_limits s"
  by (simp add: reset_view_def)

lemma home_zoom_at_point:
  "zoom_at_point s x y f = Inr s' \<Longrightarrow> x_limits s' = x_limits s \<and> y_limits s' = y_limits s"
  by (auto simp: zoom_at_point_def Let_def split: if_splits)

lemma home_apply_op:
  "apply_op s op = Inr s' \<Longrightarrow> x_limits s' = x_limits s \<and> y_limits s' = y_limits s"
  by (cases op) (auto simp: home_zoom home_pan home_reset_view dest: home_zoom_at_point)

lemma home_run:
  "run s ops = Inr s' \<Longrightarrow> x_limits s' = x_limits s \<and> y_limits s' = y_limits s"
proof (induction ops arbitrary: s)
  case Nil
  then show ?case by simp
next
  case (Cons op ops)
  then obtain s1 where a: "apply_op s op = Inr s1" and r: "run s1 ops = Inr s'"
    by (auto split: sum.splits)
  from Cons.IH [OF r] home_apply_op [OF a] show ?case by simp
qed

text \<open>
  C4. Whatever navigation calls came before, \<^verbatim>\<open>reset_view\<close> makes the current
  limits equal to the stored reset target (which is still the one the run
  started with), and a second \<^verbatim>\<open>reset_view\<close> right after changes nothing.
\<close>

theorem reset_view_restores_home:
  "run s ops = Inr s' \<Longrightarrow>
     xlim (reset_view s') = x_limits s \<and> ylim (reset_view s') = y_limits s
     \<and> xlim (reset_view s') = x_limits s' \<and> ylim (reset_view s') = y_limits s'
     \<and> reset_view (reset_view s') = reset_view s'"
  using home_run [of s ops s'] by (simp add: reset_view_def)

theorem reset_view_restores_home_witness:
  "run \<lparr>xlim = (0, 100), ylim = (0, 100), x_limits = (0, 100), y_limits = (0, 100)\<rparr>
       [ZoomCentered 2, Pan 1 1]
     = Inr \<lparr>xlim = (150, 350), ylim = (150, 350), x_limits = (0, 100), y_limits = (0, 100)\<rparr>
   \<and> xlim (reset_view \<lparr>xlim = (150, 350), ylim = (150, 350),
                         x_limits = (0, 100), y_limits = (0, 100)\<rparr>) = (0, 100)
   \<and> reset_view (reset_view \<lparr>xlim = (150, 350), ylim = (150, 350),
                         x_limits = (0, 100), y_limits = (0, 100)\<rparr>)
     = reset_view \<lparr>xlim = (150, 350), ylim = (150, 350),
                         x_limits = (0, 100), y_limits = (0, 100)\<rparr>"
proof -
  have r: "run \<lparr>xlim = (0, 100), ylim = (0, 100), x_limits = (0, 100), y_limits = (0, 100)\<rparr>
       [ZoomCentered 2, Pan 1 1]
     = Inr \<lparr>xlim = (150, 350), ylim = (150, 350), x_limits = (0, 100), y_limits = (0, 100)\<rparr>"
    by (simp add: zoom_def pan_def Let_def)
  from reset_view_restores_home [OF r] r show ?thesis by simp
qed

subsection \<open>Panning\<close>

text \<open>
  C6. \<^verbatim>\<open>pan(dx, dy)\<close> adds \<open>dx\<close> times the current width to both x limits and
  \<open>dy\<close> times the current height to both y limits, so width and height stay
  as they were, and \<^verbatim>\<open>pan(-dx, -dy)\<close> right after it gives back the state the
  first call started from.
\<close>

theorem pan_translation:
  "xlim (pan s dx dy) = (fst (xlim s) + dx * width (xlim s), snd (xlim s) + dx * width (xlim s))
 \<and> ylim (pan s dx dy) = (fst (ylim s) + dy * width (ylim s), snd (ylim s) + dy * width (ylim s))
 \<and> width (xlim (pan s dx dy)) = width (xlim s)
 \<and> width (ylim (pan s dx dy)) = width (ylim s)
 \<and> pan (pan s dx dy) (- dx) (- dy) = s"
  by (simp add: pan_def width_def Let_def)

subsection \<open>Zooming on the centre\<close>

text \<open>
  C5. For a factor \<open>f > 0\<close>, \<^verbatim>\<open>zoom(f)\<close> followed by \<^verbatim>\<open>zoom(1/f)\<close> gives back
  the bounds it started from (exactly, in real arithmetic).
\<close>

theorem zoom_round_trip:
  "0 < f \<Longrightarrow> zoom (zoom s f) (1 / f) = s"
  by (simp add: zoom_def Let_def field_simps)

theorem zoom_round_trip_witness:
  "(0::real) < 2
   \<and> zoom (zoom \<lparr>xlim = (0, 100), ylim = (0, 60), x_limits = (0, 100), y_limits = (0, 60)\<rparr> 2) (1 / 2)
     = \<lparr>xlim = (0, 100), ylim = (0, 60), x_limits = (0, 100), y_limits = (0, 60)\<rparr>
   \<and> zoom \<lparr>xlim = (0, 100), ylim = (0, 60), x_limits = (0, 100), y_limits = (0, 60)\<rparr> 2
     = \<lparr>xlim = (- 50, 150), ylim = (- 30, 90), x_limits = (0, 100), y_limits = (0, 60)\<rparr>"
proof -
  have f: "(0::real) < 2" by simp
  have z: "zoom \<lparr>xlim = (0, 100), ylim = (0, 60), x_limits = (0, 100), y_limits = (0, 60)\<rparr> 2
     = \<lparr>xlim = (- 50, 150), ylim = (- 30, 90), x_limits = (0, 100), y_limits = (0, 60)\<rparr>"
    by (simp add: zoom_def Let_def)
  from zoom_round_trip [OF f, of "\<lparr>xlim = (0, 100), ylim = (0, 60), x_limits = (0, 100),
      y_limits = (0, 60)\<rparr>"] f z
  show ?thesis by simp
qed

lemma scale_factor_of_pos: "0 < scale_factor_of b"
  by (simp add: scale_factor_of_def base_scale_def)

text \<open>
  C2, as the code has it. \<^verbatim>\<open>zoom\<close> checks nothing and raises nothing. A
  negative factor is applied like any other: on a view of positive width and
  height the new bounds keep the old centre and have the old width and height
  times the factor, so their upper limits lie strictly below their lower
  limits, the view is not the one the call started from, and the reset target
  is untouched. The scroll handler picks its factor itself, and that factor
  is always positive. (With the factor \<open>0\<close> the two limits handed to the axes
  are identical; what the plotting library stores then is not stated here.)
\<close>

theorem zoom_applies_negative_factor:
  "f < 0 \<Longrightarrow> valid_view s \<Longrightarrow>
     width (xlim (zoom s f)) = width (xlim s) * f
   \<and> width (ylim (zoom s f)) = width (ylim s) * f
   \<and> center (xlim (zoom s f)) = center (xlim s)
   \<and> center (ylim (zoom s f)) = center (ylim s)
   \<and> x_limits (zoom s f) = x_limits s \<and> y_limits (zoom s f) = y_limits s
   \<and> snd (xlim (zoom s f)) < fst (xlim (zoom s f))
   \<and> snd (ylim (zoom s f)) < fst (ylim (zoom s f))
   \<and> \<not> valid_view (zoom s f)
   \<and> xlim (zoom s f) \<noteq> xlim s \<and> ylim (zoom s f) \<noteq> ylim s
   \<and> 0 < scale_factor_of b"
proof -
  assume f: "f < 0" and v: "valid_view s"
  have w: "width (xlim (zoom s f)) = width (xlim s) * f"
          "width (ylim (zoom s f)) = width (ylim s) * f"
    by (simp_all add: zoom_def Let_def width_def algebra_simps)
  have c: "center (xlim (zoom s f)) = center (xlim s)" "center (ylim (zoom s f)) = center (ylim s)"
    by (simp_all add: zoom_def Let_def center_def)
  have h: "x_limits (zoom s f) = x_limits s \<and> y_limits (zoom s f) = y_limits s"
    by (simp add: zoom_def Let_def)
  from v have wx: "0 < width (xlim s)" and wy: "0 < width (ylim s)"
    by (simp_all add: valid_view_def valid_bounds_def width_def)
  from wx f have "width (xlim s) * f < 0" by (simp add: mult_less_0_iff)
  with w(1) have ix: "snd (xlim (zoom s f)) < fst (xlim (zoom s f))"
    by (simp add: width_def)
  from wy f have "width (ylim s) * f < 0" by (simp add: mult_less_0_iff)
  with w(2) have iy: "snd (ylim (zoom s f)) < fst (ylim (zoom s f))"
    by (simp add: width_def)
  from ix have nv: "\<not> valid_view (zoom s f)"
    by (simp add: valid_view_def valid_bounds_def)
  from ix wx have dx: "xlim (zoom s f) \<noteq> xlim s"
    by (auto simp: width_def)
  from iy wy have dy: "ylim (zoom s f) \<noteq> ylim s"
    by (auto simp: width_def)
  from w c h ix iy nv dx dy scale_factor_of_pos [of b] show ?thesis by blast
qed

theorem zoom_applies_negative_factor_witness:
  "(- 1::real) < 0
   \<and> valid_view \<lparr>xlim = (0, 100), ylim = (0, 100), x_limits = (0, 100), y_limits = (0, 100)\<rparr>
   \<and> zoom \<lparr>xlim = (0, 100), ylim = (0, 100), x_limits = (0, 100), y_limits = (0, 100)\<rparr> (- 1)
       = \<lparr>xlim = (100, 0), ylim = (100, 0), x_limits = (0, 100), y_limits = (0, 100)\<rparr>
   \<and> \<not> valid_view (zoom \<lparr>xlim = (0, 100), ylim = (0, 100), x_limits = (0, 100),
                            y_limits = (0, 100)\<rparr> (- 1))
   \<and> width (xlim (zoom \<lparr>xlim = (0, 100), ylim = (0, 100), x_limits = (0, 100),
                            y_limits = (0, 100)\<rparr> (- 1))) = - 100"
proof -
  let ?s = "\<lparr>xlim = (0, 100), ylim = (0, 100), x_limits = (0, 100), y_limits = (0, 100)\<rparr>"
  have f: "(- 1::real) < 0" by simp
  have v: "valid_view ?s" by (simp add: valid_view_def valid_bounds_def)
  have z: "zoom ?s (- 1)
       = \<lparr>xlim = (100, 0), ylim = (100, 0), x_limits = (0, 100), y_limits = (0, 100)\<rparr>"
    by (simp add: zoom_def Let_def)
  from zoom_applies_negative_factor [OF f v, of "''up''"]
  have "\<not> valid_view (zoom ?s (- 1))"
    and "width (xlim (zoom ?s (- 1))) = width (xlim ?s) * (- 1)"
    by blast+
  with f v z show ?thesis by (simp add: width_def)
qed

text \<open>
  C2 as stated fails: \<^verbatim>\<open>zoom(-1)\<close> on the view \<open>(0, 100) \<times> (0, 100)\<close> returns
  normally and leaves the limits \<open>(100, 0)\<close> in both directions.
\<close>

theorem zoom_negative_factor_applied:
  "apply_op \<lparr>xlim = (0, 100), ylim = (0, 100), x_limits = (0, 100), y_limits = (0, 100)\<rparr>
        (ZoomCentered (- 1))
     = Inr \<lparr>xlim = (100, 0), ylim = (100, 0), x_limits = (0, 100), y_limits = (0, 100)\<rparr>
   \<and> xlim \<lparr>xlim = (100, 0), ylim = (100, 0), x_limits = (0, 100), y_limits = (0, 100)\<rparr>
     \<noteq> xlim \<lparr>xlim = (0, 100), ylim = (0, 100), x_limits = (0, 100), y_limits = (0, 100)\<rparr>"
  by (simp add: zoom_def Let_def)

subsection \<open>Zooming on the cursor\<close>

lemma on_scroll_zoom_at_point:
  "inaxes event \<Longrightarrow> xdata event = Some x \<Longrightarrow> ydata event = Some y \<Longrightarrow>
     on_scroll s event = zoom_at_point s x y (scale_factor_of (button event))"
  by (simp add: on_scroll_def)

text \<open>
  C1. On bounds of positive width and height and with a factor \<open>> 0\<close>, the
  cursor-anchored zoom succeeds; the new width and height are the old ones
  times the factor, and the anchor is at the same fraction of the width from
  the upper x limit, and of the height from the upper y limit, as before. On
  the view \<open>(0, 100) \<times> (0, 100)\<close> with the anchor \<open>(20, 20)\<close> and the factor
  \<open>0.5\<close> the new limits are \<open>(10, 60)\<close> in both directions.
\<close>

theorem zoom_at_point_anchor:
  "valid_bounds (xlim s) \<Longrightarrow> valid_bounds (ylim s) \<Longrightarrow> 0 < f \<Longrightarrow>
     (\<exists>s'. zoom_at_point s ax ay f = Inr s'
        \<and> width (xlim s') = width (xlim s) * f
        \<and> width (ylim s') = width (ylim s) * f
        \<and> (snd (xlim s') - ax) / width (xlim s') = (snd (xlim s) - ax) / width (xlim s)
        \<and> (snd (ylim s') - ay) / width (ylim s') = (snd (ylim s) - ay) / width (ylim s))
   \<and> zoom_at_point \<lparr>xlim = (0, 100), ylim = (0, 100), x_limits = hx, y_limits = hy\<rparr> 20 20 0.5
       = Inr \<lparr>xlim = (10, 60), ylim = (10, 60), x_limits = hx, y_limits = hy\<rparr>"
proof -
  assume vx: "valid_bounds (xlim s)" and vy: "valid_bounds (ylim s)" and f: "0 < f"
  define wx where "wx = snd (xlim s) - fst (xlim s)"
  define wy where "wy = snd (ylim s) - fst (ylim s)"
  from vx vy have wx: "0 < wx" and wy: "0 < wy"
    by (simp_all add: valid_bounds_def wx_def wy_def)
  define s' where "s' = s\<lparr>xlim := (ax - wx * f * (1 - (snd (xlim s) - ax) / wx),
                                   ax + wx * f * ((snd (xlim s) - ax) / wx)),
                          ylim := (ay - wy * f * (1 - (snd (ylim s) - ay) / wy),
                                   ay + wy * f * ((snd (ylim s) - ay) / wy))\<rparr>"
  have r: "zoom_at_point s ax ay f = Inr s'"
    using wx wy by (simp add: zoom_at_point_def Let_def s'_def wx_def wy_def)
  have w1: "width (xlim s') = width (xlim s) * f"
    by (simp add: s'_def width_def wx_def algebra_simps)
  have w2: "width (ylim s') = width (ylim s) * f"
    by (simp add: s'_def width_def wy_def algebra_simps)
  have a1: "(snd (xlim s') - ax) / width (xlim s') = (snd (xlim s) - ax) / width (xlim s)"
    unfolding w1 using wx f by (simp add: s'_def width_def wx_def)
  have a2: "(snd (ylim s') - ay) / width (ylim s') = (snd (ylim s) - ay) / width (ylim s)"
    unfolding w2 using wy f by (simp add: s'_def width_def wy_def)
  have c: "zoom_at_point \<lparr>xlim = (0, 100), ylim = (0, 100), x_limits = hx, y_limits = hy\<rparr> 20 20 0.5
       = Inr \<lparr>xlim = (10, 60), ylim = (10, 60), x_limits = hx, y_limits = hy\<rparr>"
    by (simp add: zoom_at_point_def Let_def)
  from r w1 w2 a1 a2 c show ?thesis by blast
qed

theorem zoom_at_point_anchor_witness:
  "valid_bounds (0, 100) \<and> (0::real) < 1 / 2
   \<and> zoom_at_point \<lparr>xlim = (0, 100), ylim = (0, 100), x_limits = (0, 100), y_limits = (0, 100)\<rparr>
        20 20 (1 / 2)
       = Inr \<lparr>xlim = (10, 60), ylim = (10, 60), x_limits = (0, 100), y_limits = (0, 100)\<rparr>
   \<and> width (10, 60) = width (0, 100) * (1 / 2)
   \<and> (60 - 20) / width (10, 60) = (100 - 20) / width (0, 100)"
proof -
  let ?s = "\<lparr>xlim = (0, 100), ylim = (0, 100), x_limits = (0, 100), y_limits = (0, 100)\<rparr>"
  have v: "valid_bounds (xlim ?s)" "valid_bounds (ylim ?s)" and f: "(0::real) < 1 / 2"
    by (simp_all add: valid_bounds_def)
  have c: "zoom_at_point ?s 20 20 (1 / 2)
       = Inr \<lparr>xlim = (10, 60), ylim = (10, 60), x_limits = (0, 100), y_limits = (0, 100)\<rparr>"
    by (simp add: zoom_at_point_def Let_def)
  from zoom_at_point_anchor [OF v f, of 20 20 "(0, 100)" "(0, 100)"] c v f
  show ?thesis by simp
qed

text \<open>
  C10. A scroll event outside the axes, or one without an x or a y data
  coordinate, leaves the whole state as it was.
\<close>

theorem on_scroll_ignored:
  "\<not> inaxes event \<or> xdata event = None \<or> ydata event = None \<Longrightarrow> on_scroll s event = Inr s"
  by (auto simp: on_scroll_def split: option.splits)

theorem on_scroll_ignored_witness:
  "xdata \<lparr>inaxes = True, xdata = None, ydata = Some 3, button = ''up''\<rparr> = None
   \<and> on_scroll \<lparr>xlim = (0, 100), ylim = (0, 100), x_limits = (0, 100), y_limits = (0, 100)\<rparr>
        \<lparr>inaxes = True, xdata = None, ydata = Some 3, button = ''up''\<rparr>
     = Inr \<lparr>xlim = (0, 100), ylim = (0, 100), x_limits = (0, 100), y_limits = (0, 100)\<rparr>"
  using on_scroll_ignored [of "\<lparr>inaxes = True, xdata = None, ydata = Some 3, button = ''up''\<rparr>"
      "\<lparr>xlim = (0, 100), ylim = (0, 100), x_limits = (0, 100), y_limits = (0, 100)\<rparr>"]
  by simp

subsection \<open>The reset target is a frame of navigation\<close>

text \<open>
  C8. Zooming (on the centre or on the cursor) and panning leave \<open>x_limits\<close>
  and \<open>y_limits\<close> as they were, and do not read them either: with another
  reset target in the state they do the same to the view and keep that other
  target.
\<close>

theorem navigation_leaves_home:
  "x_limits (zoom s f) = x_limits s \<and> y_limits (zoom s f) = y_limits s
   \<and> x_limits (pan s dx dy) = x_limits s \<and> y_limits (pan s dx dy) = y_limits s
   \<and> (zoom_at_point s x y f = Inr s1 \<longrightarrow> x_limits s1 = x_limits s \<and> y_limits s1 = y_limits s)
   \<and> (on_scroll s event = Inr s2 \<longrightarrow> x_limits s2 = x_limits s \<and> y_limits s2 = y_limits s)
   \<and> zoom (s\<lparr>x_limits := hx, y_limits := hy\<rparr>) f = (zoom s f)\<lparr>x_limits := hx, y_limits := hy\<rparr>
   \<and> pan (s\<lparr>x_limits := hx, y_limits := hy\<rparr>) dx dy = (pan s dx dy)\<lparr>x_limits := hx, y_limits := hy\<rparr>
   \<and> zoom_at_point (s\<lparr>x_limits := hx, y_limits := hy\<rparr>) x y f
       = map_sum id (\<lambda>t. t\<lparr>x_limits := hx, y_limits := hy\<rparr>) (zoom_at_point s x y f)
   \<and> on_scroll (s\<lparr>x_limits := hx, y_limits := hy\<rparr>) event
       = map_sum id (\<lambda>t. t\<lparr>x_limits := hx, y_limits := hy\<rparr>) (on_scroll s event)"
proof -
  have z: "zoom_at_point s x y f = Inr s1 \<longrightarrow> x_limits s1 = x_limits s \<and> y_limits s1 = y_limits s"
    for x y f s1
    using home_zoom_at_point by blast
  have o: "on_scroll s event = Inr s2 \<longrightarrow> x_limits s2 = x_limits s \<and> y_limits s2 = y_limits s"
    using z by (auto simp: on_scroll_def split: option.splits)
  have zr: "zoom_at_point (s\<lparr>x_limits := hx, y_limits := hy\<rparr>) x y f
       = map_sum id (\<lambda>t. t\<lparr>x_limits := hx, y_limits := hy\<rparr>) (zoom_at_point s x y f)"
    for x y f
    by (simp add: zoom_at_point_def Let_def)
  have "on_scroll (s\<lparr>x_limits := hx, y_limits := hy\<rparr>) event
       = map_sum id (\<lambda>t. t\<lparr>x_limits := hx, y_limits := hy\<rparr>) (on_scroll s event)"
    by (simp add: on_scroll_def zr split: option.splits)
  with z o zr home_zoom home_pan show ?thesis
    by (simp add: zoom_def pan_def Let_def)
qed

theorem navigation_leaves_home_witness:
  "zoom_at_point \<lparr>xlim = (0, 100), ylim = (0, 100), x_limits = (- 5, 105), y_limits = (- 5, 105)\<rparr>
        20 20 (1 / 2)
     = Inr \<lparr>xlim = (10, 60), ylim = (10, 60), x_limits = (- 5, 105), y_limits = (- 5, 105)\<rparr>
   \<and> on_scroll \<lparr>xlim = (0, 100), ylim = (0, 100), x_limits = (- 5, 105), y_limits = (- 5, 105)\<rparr>
        \<lparr>inaxes = True, xdata = Some 20, ydata = Some 20, button = ''scroll''\<rparr>
     = Inr \<lparr>xlim = (0, 100), ylim = (0, 100), x_limits = (- 5, 105), y_limits = (- 5, 105)\<rparr>
   \<and> x_limits \<lparr>xlim = (10, 60), ylim = (10, 60), x_limits = (- 5, 105), y_limits = (- 5, 105)\<rparr>
     = x_limits \<lparr>xlim = (0, 100), ylim = (0, 100), x_limits = (- 5, 105), y_limits = (- 5, 105)\<rparr>"
proof -
  let ?s = "\<lparr>xlim = (0, 100), ylim = (0, 100), x_limits = (- 5, 105), y_limits = (- 5, 105)\<rparr>"
  let ?e = "\<lparr>inaxes = True, xdata = Some 20, ydata = Some 20, button = ''scroll''\<rparr>"
  have a: "zoom_at_point ?s 20 20 (1 / 2)
     = Inr \<lparr>xlim = (10, 60), ylim = (10, 60), x_limits = (- 5, 105), y_limits = (- 5, 105)\<rparr>"
    by (simp add: zoom_at_point_def Let_def)
  have b: "on_scroll ?s ?e = Inr ?s"
    by (simp add: on_scroll_def zoom_at_point_def scale_factor_of_def Let_def)
  from navigation_leaves_home [of ?s "1 / 2" 0 0 20 20
      "\<lparr>xlim = (10, 60), ylim = (10, 60), x_limits = (- 5, 105), y_limits = (- 5, 105)\<rparr>"
      ?e ?s "(- 5, 105)" "(- 5, 105)"] a b
  show ?thesis by simp
qed

subsection \<open>Positive extent\<close>

lemma valid_zoom: "valid_state s \<Longrightarrow> 0 < f \<Longrightarrow> valid_state (zoom s f)"
  by (simp add: valid_state_def valid_view_def valid_bounds_def zoom_def Let_def)

lemma valid_pan: "valid_state s \<Longrightarrow> valid_state (pan s dx dy)"
  by (simp add: valid_state_def valid_view_def valid_bounds_def pan_def Let_def)

lemma valid_reset_view: "valid_state s \<Longrightarrow> valid_state (reset_view s)"
  by (simp add: valid_state_def valid_view_def reset_view_def)

lemma valid_zoom_at_point:
  assumes "valid_state s" and "0 < f"
  shows "\<exists>s'. zoom_at_point s x y f = Inr s' \<and> valid_state s'"
proof -
  define wx where "wx = snd (xlim s) - fst (xlim s)"
  define wy where "wy = snd (ylim s) - fst (ylim s)"
  from assms have wx: "0 < wx" and wy: "0 < wy"
    by (simp_all add: valid_state_def valid_view_def valid_bounds_def wx_def wy_def)
  have nx: "x - wx * f * (1 - (snd (xlim s) - x) / wx) < x + wx * f * ((snd (xlim s) - x) / wx)"
  proof -
    have "x + wx * f * ((snd (xlim s) - x) / wx) - (x - wx * f * (1 - (snd (xlim s) - x) / wx)) = wx * f"
      by (simp add: algebra_simps)
    moreover have "0 < wx * f" using wx assms(2) by simp
    ultimately show ?thesis by linarith
  qed
  have ny: "y - wy * f * (1 - (snd (ylim s) - y) / wy) < y + wy * f * ((snd (ylim s) - y) / wy)"
  proof -
    have "y + wy * f * ((snd (ylim s) - y) / wy) - (y - wy * f * (1 - (snd (ylim s) - y) / wy)) = wy * f"
      by (simp add: algebra_simps)
    moreover have "0 < wy * f" using wy assms(2) by simp
    ultimately show ?thesis by linarith
  qed
  show ?thesis
    using wx wy nx ny assms(1)
    by (simp add: zoom_at_point_def Let_def valid_state_def valid_view_def valid_bounds_def
        wx_def wy_def)
qed

lemma valid_apply_op:
  "valid_state s \<Longrightarrow> positive_factor op \<Longrightarrow> \<exists>s'. apply_op s op = Inr s' \<and> valid_state s'"
  by (cases op) (simp_all add: valid_zoom valid_pan valid_reset_view valid_zoom_at_point)

lemma valid_on_key_press: "valid_state s \<Longrightarrow> valid_state (on_key_press s key)"
  by (simp add: on_key_press_def valid_zoom valid_pan valid_reset_view)

lemma valid_on_scroll:
  "valid_state s \<Longrightarrow> \<exists>s'. on_scroll s event = Inr s' \<and> valid_state s'"
  by (simp add: on_scroll_def valid_zoom_at_point scale_factor_of_pos split: option.splits)

text \<open>
  C3, as the code has it. From a state in which the view and the reset target
  both have positive width and height, every sequence of navigation calls
  whose zoom factors are all positive runs to the end without an exception and
  ends in such a state again. (The key and scroll handlers only ever pass
  positive factors, see \<open>valid_on_key_press\<close> and \<open>valid_on_scroll\<close>.)
\<close>

theorem positive_runs_keep_positive_extent:
  "valid_state s \<Longrightarrow> list_all positive_factor ops \<Longrightarrow>
     \<exists>s'. run s ops = Inr s' \<and> valid_state s'"
proof (induction ops arbitrary: s)
  case Nil
  then show ?case by simp
next
  case (Cons op ops)
  from Cons.prems have "positive_factor op" and rest: "list_all positive_factor ops"
    by simp_all
  with Cons.prems(1) obtain s1 where a: "apply_op s op = Inr s1" and v: "valid_state s1"
    using valid_apply_op by blast
  from Cons.IH [OF v rest] a show ?case by simp
qed

theorem positive_runs_keep_positive_extent_witness:
  "valid_state \<lparr>xlim = (0, 100), ylim = (0, 100), x_limits = (0, 100), y_limits = (0, 100)\<rparr>
   \<and> list_all positive_factor [ZoomAtPoint 20 20 (1 / 2), ZoomCentered 2, Pan 1 1, Reset, Pan 1 0]
   \<and> run \<lparr>xlim = (0, 100), ylim = (0, 100), x_limits = (0, 100), y_limits = (0, 100)\<rparr>
        [ZoomAtPoint 20 20 (1 / 2), ZoomCentered 2, Pan 1 1, Reset, Pan 1 0]
     = Inr \<lparr>xlim = (100, 200), ylim = (0, 100), x_limits = (0, 100), y_limits = (0, 100)\<rparr>
   \<and> valid_state \<lparr>xlim = (100, 200), ylim = (0, 100), x_limits = (0, 100), y_limits = (0, 100)\<rparr>"
proof -
  let ?s = "\<lparr>xlim = (0, 100), ylim = (0, 100), x_limits = (0, 100), y_limits = (0, 100)\<rparr>"
  let ?ops = "[ZoomAtPoint 20 20 (1 / 2), ZoomCentered 2, Pan 1 1, Reset, Pan 1 0]"
  have v: "valid_state ?s"
    by (simp add: valid_state_def valid_view_def valid_bounds_def)
  have p: "list_all positive_factor ?ops" by simp
  have r: "run ?s ?ops
     = Inr \<lparr>xlim = (100, 200), ylim = (0, 100), x_limits = (0, 100), y_limits = (0, 100)\<rparr>"
    by (simp add: zoom_at_point_def zoom_def pan_def reset_view_def Let_def)
  from positive_runs_keep_positive_extent [OF v p] v p r show ?thesis by simp
qed

text \<open>
  C3 as stated fails, since \<^verbatim>\<open>zoom\<close> takes any factor: from the valid state
  with view \<open>(0, 100) \<times> (0, 100)\<close> the single call \<^verbatim>\<open>zoom(-1)\<close> reaches a view
  whose upper limits are below its lower limits.
\<close>

theorem negative_zoom_breaks_positive_extent:
  "valid_state \<lparr>xlim = (0, 100), ylim = (0, 100), x_limits = (0, 100), y_limits = (0, 100)\<rparr>
   \<and> run \<lparr>xlim = (0, 100), ylim = (0, 100), x_limits = (0, 100), y_limits = (0, 100)\<rparr>
        [ZoomCentered (- 1)]
     = Inr \<lparr>xlim = (100, 0), ylim = (100, 0), x_limits = (0, 100), y_limits = (0, 100)\<rparr>
   \<and> \<not> valid_bounds (100, 0)"
  by (simp add: valid_state_def valid_view_def valid_bounds_def zoom_def Let_def)

subsection \<open>The initial view\<close>

text \<open>
  C7. When an initial centre is given, the view that \<^verbatim>\<open>setup_plot\<close> leaves has
  the fitted width and height times the initial zoom level and is centred on
  the given point; the reset target is overwritten with this view, so that a
  reset returns to it. With a fitted view of width 40000 and height 30000
  around \<open>(30000, 15000)\<close>, the centre \<open>(33950, 20000)\<close> and the zoom level
  \<open>0.5\<close>, the view and the reset target are \<open>(23950, 43950) \<times> (12500, 27500)\<close>.
\<close>

theorem setup_plot_override:
  "xlim (setup_plot fit_x fit_y (Some (cx, cy)) z) = (cx - width fit_x * z / 2, cx + width fit_x * z / 2)
 \<and> ylim (setup_plot fit_x fit_y (Some (cx, cy)) z) = (cy - width fit_y * z / 2, cy + width fit_y * z / 2)
 \<and> width (xlim (setup_plot fit_x fit_y (Some (cx, cy)) z)) = width fit_x * z
 \<and> width (ylim (setup_plot fit_x fit_y (Some (cx, cy)) z)) = width fit_y * z
 \<and> center (xlim (setup_plot fit_x fit_y (Some (cx, cy)) z)) = cx
 \<and> center (ylim (setup_plot fit_x fit_y (Some (cx, cy)) z)) = cy
 \<and> x_limits (setup_plot fit_x fit_y (Some (cx, cy)) z) = xlim (setup_plot fit_x fit_y (Some (cx, cy)) z)
 \<and> y_limits (setup_plot fit_x fit_y (Some (cx, cy)) z) = ylim (setup_plot fit_x fit_y (Some (cx, cy)) z)
 \<and> reset_view (setup_plot fit_x fit_y (Some (cx, cy)) z) = setup_plot fit_x fit_y (Some (cx, cy)) z
 \<and> (run (setup_plot fit_x fit_y (Some (cx, cy)) z) ops = Inr s' \<longrightarrow>
      xlim (reset_view s') = (cx - width fit_x * z / 2, cx + width fit_x * z / 2)
      \<and> ylim (reset_view s') = (cy - width fit_y * z / 2, cy + width fit_y * z / 2))
 \<and> setup_plot (10000, 50000) (0, 30000) (Some (33950, 20000)) 0.5
     = \<lparr>xlim = (23950, 43950), ylim = (12500, 27500),
        x_limits = (23950, 43950), y_limits = (12500, 27500)\<rparr>"
proof -
  let ?s = "setup_plot fit_x fit_y (Some (cx, cy)) z"
  have h: "x_limits ?s = (cx - width fit_x * z / 2, cx + width fit_x * z / 2)
         \<and> y_limits ?s = (cy - width fit_y * z / 2, cy + width fit_y * z / 2)"
    by (simp add: setup_plot_def set_initial_view_def width_def Let_def)
  have r: "run ?s ops = Inr s' \<longrightarrow>
      xlim (reset_view s') = (cx - width fit_x * z / 2, cx + width fit_x * z / 2)
      \<and> ylim (reset_view s') = (cy - width fit_y * z / 2, cy + width fit_y * z / 2)"
    using home_run [of ?s ops s'] h by (simp add: reset_view_def)
  have rest: "xlim ?s = (cx - width fit_x * z / 2, cx + width fit_x * z / 2)
     \<and> ylim ?s = (cy - width fit_y * z / 2, cy + width fit_y * z / 2)
     \<and> width (xlim ?s) = width fit_x * z \<and> width (ylim ?s) = width fit_y * z
     \<and> center (xlim ?s) = cx \<and> center (ylim ?s) = cy
     \<and> x_limits ?s = xlim ?s \<and> y_limits ?s = ylim ?s
     \<and> reset_view ?s = ?s"
    by (simp add: setup_plot_def set_initial_view_def reset_view_def width_def center_def Let_def)
  have c: "setup_plot (10000, 50000) (0, 30000) (Some (33950, 20000)) 0.5
     = \<lparr>xlim = (23950, 43950), ylim = (12500, 27500),
        x_limits = (23950, 43950), y_limits = (12500, 27500)\<rparr>"
    by (simp add: setup_plot_def set_initial_view_def Let_def)
  from rest r c show ?thesis by blast
qed

theorem setup_plot_override_witness:
  "run (setup_plot (10000, 50000) (0, 30000) (Some (33950, 20000)) (1 / 2))
       [ZoomCentered 2, Pan 1 1]
     = Inr \<lparr>xlim = (53950, 93950), ylim = (35000, 65000),
            x_limits = (23950, 43950), y_limits = (12500, 27500)\<rparr>
   \<and> xlim (reset_view \<lparr>xlim = (53950, 93950), ylim = (35000, 65000),
            x_limits = (23950, 43950), y_limits = (12500, 27500)\<rparr>) = (23950, 43950)
   \<and> ylim (reset_view \<lparr>xlim = (53950, 93950), ylim = (35000, 65000),
            x_limits = (23950, 43950), y_limits = (12500, 27500)\<rparr>) = (12500, 27500)"
proof -
  let ?t = "\<lparr>xlim = (53950, 93950), ylim = (35000, 65000),
            x_limits = (23950, 43950), y_limits = (12500, 27500)\<rparr>"
  have r: "run (setup_plot (10000, 50000) (0, 30000) (Some (33950, 20000)) (1 / 2))
       [ZoomCentered 2, Pan 1 1] = Inr ?t"
    by (simp add: setup_plot_def set_initial_view_def zoom_def pan_def Let_def)
  from setup_plot_override [of "(10000, 50000)" "(0, 30000)" 33950 20000 "1 / 2"
      "[ZoomCentered 2, Pan 1 1]" ?t] r
  have "xlim (reset_view ?t) = (33950 - width (10000, 50000) * (1 / 2) / 2,
                                33950 + width (10000, 50000) * (1 / 2) / 2)
      \<and> ylim (reset_view ?t) = (20000 - width (0, 30000) * (1 / 2) / 2,
                                20000 + width (0, 30000) * (1 / 2) / 2)"
    by blast
  with r show ?thesis by (simp add: width_def)
qed

subsection \<open>Empty layers\<close>



end
